theory Spec2Isabelle
  imports Complex_Main
begin

section \<open>Python values\<close>

text \<open>
  A Python \<open>str\<close> is a sequence of Unicode code points; slicing and \<open>len\<close> count code
  points. It is modelled as a list of code points, so that \<open>take n\<close> is the slice
  \<open>[:n]\<close> on every string. \<open>lit\<close> embeds an ASCII literal of the source.
\<close>

type_synonym pystr = "nat list"

definition lit :: "string \<Rightarrow> pystr" where
  "lit s = map of_char s"

text \<open>
  A Python \<open>float\<close> is a binary64 number: \<open>Finite m e\<close> is the number \<open>m * 2 ^ e\<close>,
  \<open>NegZero\<close> the negative zero, \<open>Infinity True\<close> and \<open>Infinity False\<close> the positive and
  the negative infinity, \<open>NaN\<close> the not-a-number.
\<close>

datatype pyfloat = Finite int int | NegZero | Infinity bool | NaN

text \<open>
  \<open>datetime.datetime\<close>: the fields \<open>isoformat\<close> reads. \<open>utcoffset\<close> is \<open>None\<close> for a
  naive value, and otherwise the offset from UTC in microseconds (the resolution of
  \<open>timedelta\<close>).
\<close>

record datetime =
  year :: nat
  month :: nat
  day :: nat
  hour :: nat
  minute :: nat
  second :: nat
  microsecond :: nat
  utcoffset :: "int option"

text \<open>
  The values \<open>serialize_item\<close> is called on: the rows of a loaded dataset. A \<open>dict\<close> is
  kept as the list of its items in insertion order. Python has two sequences that are
  neither mappings nor strings here: the \<open>list\<close> (\<open>PList\<close>) and the \<open>tuple\<close> (\<open>PTuple\<close>).
  \<open>PObject\<close> stands for an object of any other class (\<open>bytes\<close>, \<open>date\<close>, \<open>Decimal\<close>,
  ...), identified by a number.
\<close>

datatype pyval =
    PNone
  | PBool bool
  | PInt int
  | PFloat pyfloat
  | PStr pystr
  | PDatetime datetime
  | PList "pyval list"
  | PTuple "pyval list"
  | PDict "(pystr \<times> pyval) list"
  | PObject nat

section \<open>Decimal rendering of integers\<close>

fun dec_digits :: "nat \<Rightarrow> pystr" where
  "dec_digits n = (if n < 10 then [48 + n] else dec_digits (n div 10) @ [48 + n mod 10])"

declare dec_digits.simps [simp del]

text \<open>\<open>"%0wd" % n\<close> for a natural number \<open>n\<close>: zero padding on the left up to width \<open>w\<close>.\<close>

definition zero_pad :: "nat \<Rightarrow> nat \<Rightarrow> pystr" where
  "zero_pad w n = replicate (w - length (dec_digits n)) 48 @ dec_digits n"

section \<open>The normalizer (download_final_datasets.py)\<close>

text \<open>
  \<open>datetime._format_offset\<close> of the standard library: sign, hours and minutes, then the
  seconds when the offset has any, then the microseconds when it has any.
\<close>

definition format_offset :: "int option \<Rightarrow> pystr" where
  "format_offset off =
     (case off of
        None \<Rightarrow> []
      | Some d \<Rightarrow>
          (let a = nat \<bar>d\<bar>;
               hh = a div 3600000000;
               r = a mod 3600000000;
               mm = r div 60000000;
               ss = r mod 60000000
           in (if d < 0 then lit ''-'' else lit ''+'') @ zero_pad 2 hh @ lit '':'' @ zero_pad 2 mm @
              (if ss \<noteq> 0
               then lit '':'' @ zero_pad 2 (ss div 1000000) @
                    (if ss mod 1000000 \<noteq> 0 then lit ''.'' @ zero_pad 6 (ss mod 1000000) else [])
               else [])))"

text \<open>\<open>datetime.isoformat()\<close> with its default separator and time precision.\<close>

definition isoformat :: "datetime \<Rightarrow> pystr" where
  "isoformat d =
     zero_pad 4 (year d) @ lit ''-'' @ zero_pad 2 (month d) @ lit ''-'' @ zero_pad 2 (day d) @
     lit ''T'' @
     zero_pad 2 (hour d) @ lit '':'' @ zero_pad 2 (minute d) @ lit '':'' @ zero_pad 2 (second d) @
     (if microsecond d \<noteq> 0 then lit ''.'' @ zero_pad 6 (microsecond d) else []) @
     format_offset (utcoffset d)"

text \<open>
  \<open>serialize_item\<close>: the \<open>isinstance\<close> tests in the order of the source. The dict
  comprehension keeps every key and the order of the items; \<open>map_prod id\<close> is
  \<open>{k: serialize_item(v) for k, v in obj.items()}\<close> on the list of items. The third
  test is \<open>isinstance(obj, list)\<close>: a tuple is no list, and takes the last branch with
  every other value.
\<close>

primrec serialize_item :: "pyval \<Rightarrow> pyval" where
  "serialize_item (PDatetime d) = PStr (isoformat d)"
| "serialize_item (PDict kvs) = PDict (map (map_prod id serialize_item) kvs)"
| "serialize_item (PList xs) = PList (map serialize_item xs)"
| "serialize_item PNone = PNone"
| "serialize_item (PBool b) = PBool b"
| "serialize_item (PInt i) = PInt i"
| "serialize_item (PFloat f) = PFloat f"
| "serialize_item (PStr s) = PStr s"
| "serialize_item (PTuple xs) = PTuple xs"
| "serialize_item (PObject n) = PObject n"





section \<open>The inspector (inspect_datasets.py): values, exceptions, library\<close>

text \<open>
  What \<open>json.load\<close> returns: \<open>None\<close>, \<open>bool\<close>, \<open>int\<close>, \<open>float\<close>, \<open>str\<close>, \<open>list\<close> and
  \<open>dict\<close> with string keys (the items in insertion order).
\<close>

datatype json =
    JNull
  | JBool bool
  | JInt int
  | JFloat pyfloat
  | JStr pystr
  | JList "json list"
  | JDict "(pystr \<times> json) list"

text \<open>
  The exceptions of the script, all of them subclasses of \<open>Exception\<close>. \<open>TypeError\<close>
  carries the operation refused and its operand, \<open>AttributeError\<close> the object and
  the attribute it lacks, \<open>KeyError\<close> the key, \<open>LoadError\<close> the class name and the
  message of what \<open>open\<close> or \<open>json.load\<close> raised.
\<close>

datatype pyexc =
    TypeError pystr json
  | AttributeError json pystr
  | KeyError json
  | IndexError
  | ValueError pystr
  | ZeroDivisionError
  | LoadError pystr pystr

text \<open>
  Three functions of the interpreter and its library are taken as they are, as
  parameters: \<open>repr\<close> of a value, \<open>json.dumps(v, indent=2)\<close>, and \<open>str\<close> of an
  exception (its message).
\<close>

record pylib =
  py_repr :: "json \<Rightarrow> pystr"
  json_dumps :: "json \<Rightarrow> pystr"
  exc_str :: "pyexc \<Rightarrow> pystr"

text \<open>
  A run of statements: the lines printed so far (one element per \<open>print\<close> call,
  without the newline \<open>print\<close> appends) and the exception that ended the run, if any.
\<close>

type_synonym run = "pystr list \<times> pyexc option"

definition print_line :: "pystr \<Rightarrow> run" where
  "print_line s = ([s], None)"

definition seq :: "run \<Rightarrow> run \<Rightarrow> run" where
  "seq r1 r2 = (case snd r1 of Some e \<Rightarrow> r1 | None \<Rightarrow> (fst r1 @ fst r2, snd r2))"

fun runs :: "run list \<Rightarrow> run" where
  "runs [] = ([], None)"
| "runs (r # rs) = seq r (runs rs)"

text \<open>An expression that may raise, followed by the statements that use its value.\<close>

definition eval_then :: "pyexc + 'a \<Rightarrow> ('a \<Rightarrow> run) \<Rightarrow> run" where
  "eval_then r f = (case r of Inl e \<Rightarrow> ([], Some e) | Inr x \<Rightarrow> f x)"

definition then_exc :: "pyexc + 'a \<Rightarrow> ('a \<Rightarrow> pyexc + 'b) \<Rightarrow> pyexc + 'b" where
  "then_exc r f = (case r of Inl e \<Rightarrow> Inl e | Inr x \<Rightarrow> f x)"

text \<open>A list comprehension whose element expression may raise: the first exception ends it.\<close>

fun map_exc :: "('a \<Rightarrow> pyexc + 'b) \<Rightarrow> 'a list \<Rightarrow> pyexc + 'b list" where
  "map_exc f [] = Inr []"
| "map_exc f (x # xs) =
     then_exc (f x) (\<lambda>y. then_exc (map_exc f xs) (\<lambda>ys. Inr (y # ys)))"

subsection \<open>Built-in operations on loaded values\<close>

definition nl :: pystr where
  "nl = [10]"

definition rule80 :: pystr where
  "rule80 = replicate 80 61"

fun py_len :: "json \<Rightarrow> pyexc + nat" where
  "py_len (JList xs) = Inr (length xs)"
| "py_len (JStr s) = Inr (length s)"
| "py_len (JDict kvs) = Inr (length kvs)"
| "py_len v = Inl (TypeError (lit ''len'') v)"

fun truthy :: "json \<Rightarrow> bool" where
  "truthy JNull = False"
| "truthy (JBool b) = b"
| "truthy (JInt i) = (i \<noteq> 0)"
| "truthy (JFloat f) = (case f of Finite m e \<Rightarrow> m \<noteq> 0 | NegZero \<Rightarrow> False | Infinity b \<Rightarrow> True | NaN \<Rightarrow> True)"
| "truthy (JStr s) = (s \<noteq> [])"
| "truthy (JList xs) = (xs \<noteq> [])"
| "truthy (JDict kvs) = (kvs \<noteq> [])"

text \<open>\<open>v[0]\<close>: the first element of a list, the first character of a string, the key \<open>0\<close> of a dict.\<close>

fun py_first :: "json \<Rightarrow> pyexc + json" where
  "py_first (JList xs) = (case xs of [] \<Rightarrow> Inl IndexError | x # _ \<Rightarrow> Inr x)"
| "py_first (JStr s) = (case s of [] \<Rightarrow> Inl IndexError | c # _ \<Rightarrow> Inr (JStr [c]))"
| "py_first (JDict kvs) = Inl (KeyError (JInt 0))"
| "py_first v = Inl (TypeError (lit ''getitem'') v)"

text \<open>\<open>for x in v\<close>: the elements of a list, the characters of a string, the keys of a dict.\<close>

fun py_iter :: "json \<Rightarrow> pyexc + json list" where
  "py_iter (JList xs) = Inr xs"
| "py_iter (JStr s) = Inr (map (\<lambda>c. JStr [c]) s)"
| "py_iter (JDict kvs) = Inr (map (\<lambda>kv. JStr (fst kv)) kvs)"
| "py_iter v = Inl (TypeError (lit ''iter'') v)"

text \<open>
  \<open>v[:n]\<close>: lists and strings are sliced. A dict has no slice among its keys (the
  lookup raises \<open>TypeError\<close> before Python 3.12 and \<open>KeyError\<close> since; both are caught
  alike, and the model keeps \<open>TypeError\<close>); nothing else is subscriptable.
\<close>

fun py_slice :: "nat \<Rightarrow> json \<Rightarrow> pyexc + json" where
  "py_slice n (JList xs) = Inr (JList (take n xs))"
| "py_slice n (JStr s) = Inr (JStr (take n s))"
| "py_slice n v = Inl (TypeError (lit ''getitem'') v)"

text \<open>The items of the dict whose method \<open>attr\<close> is called; any other value has no such method.\<close>

fun as_dict :: "pystr \<Rightarrow> json \<Rightarrow> pyexc + (pystr \<times> json) list" where
  "as_dict attr (JDict kvs) = Inr kvs"
| "as_dict attr v = Inl (AttributeError v attr)"

definition dict_get :: "(pystr \<times> json) list \<Rightarrow> pystr \<Rightarrow> json \<Rightarrow> json" where
  "dict_get kvs k d = (case map_of kvs k of None \<Rightarrow> d | Some v \<Rightarrow> v)"

text \<open>\<open>obj.get(k, d)\<close>\<close>

definition py_get :: "json \<Rightarrow> pystr \<Rightarrow> json \<Rightarrow> pyexc + json" where
  "py_get obj k d = then_exc (as_dict (lit ''get'') obj) (\<lambda>kvs. Inr (dict_get kvs k d))"

definition int_str :: "int \<Rightarrow> pystr" where
  "int_str i = (if i < 0 then lit ''-'' @ dec_digits (nat (- i)) else dec_digits (nat i))"

text \<open>\<open>str(v)\<close>, which is what an f-string field \<open>{v}\<close> renders.\<close>

fun py_str :: "pylib \<Rightarrow> json \<Rightarrow> pystr" where
  "py_str L JNull = lit ''None''"
| "py_str L (JBool b) = (if b then lit ''True'' else lit ''False'')"
| "py_str L (JInt i) = int_str i"
| "py_str L (JStr s) = s"
| "py_str L v = py_repr L v"

text \<open>\<open>{n:,}\<close> for a natural number: its digits in groups of three.\<close>

fun fmt_comma :: "nat \<Rightarrow> pystr" where
  "fmt_comma n =
     (if n < 1000 then dec_digits n
      else fmt_comma (n div 1000) @ lit '','' @ zero_pad 3 (n mod 1000))"

declare fmt_comma.simps [simp del]

subsection \<open>Floating point: true division of integers and the format \<open>.1f\<close>\<close>

fun bit_length :: "nat \<Rightarrow> nat" where
  "bit_length n = (if n = 0 then 0 else Suc (bit_length (n div 2)))"

declare bit_length.simps [simp del]

text \<open>The integer nearest to \<open>n / d\<close>, for \<open>d > 0\<close>; a tie goes to the even neighbour.\<close>

definition round_half_even :: "int \<Rightarrow> int \<Rightarrow> int" where
  "round_half_even n d =
     (let f = n div d; r = n mod d
      in if 2 * r < d then f else if d < 2 * r then f + 1 else if even f then f else f + 1)"

text \<open>\<open>2 ^ d \<le> a / b\<close>, on integers.\<close>

definition ratio_ge :: "nat \<Rightarrow> nat \<Rightarrow> int \<Rightarrow> bool" where
  "ratio_ge a b d = (int b * 2 ^ nat d \<le> int a * 2 ^ nat (- d))"

text \<open>
  The binary64 number nearest to \<open>a / b\<close> (ties to even), for \<open>b > 0\<close>: with
  \<open>2 ^ e \<le> a / b < 2 ^ (e + 1)\<close> the quotient is rounded to a multiple of
  \<open>2 ^ (e - 52)\<close>, the result being \<open>m * 2 ^ (e - 52)\<close>. The quotients of this script (a
  sum of lengths or a hundred times a count, over a number of records) are far inside
  the range of the normal numbers.
\<close>

definition nearest_double :: "nat \<Rightarrow> nat \<Rightarrow> pyfloat" where
  "nearest_double a b =
     (if a = 0 then Finite 0 0
      else let d = int (bit_length a) - int (bit_length b);
               e = (if ratio_ge a b d then d else d - 1);
               k = e - 52
           in Finite (round_half_even (int a * 2 ^ nat (- k)) (int b * 2 ^ nat k)) k)"

text \<open>\<open>a / b\<close> on integers \<open>a \<ge> 0\<close>, \<open>b \<ge> 0\<close>.\<close>

definition true_div :: "nat \<Rightarrow> nat \<Rightarrow> pyexc + pyfloat" where
  "true_div a b = (if b = 0 then Inl ZeroDivisionError else Inr (nearest_double a b))"

text \<open>
  \<open>{x:.1f}\<close>: the decimal with one fractional digit nearest to \<open>x\<close> (ties to even), with
  the sign of \<open>x\<close>.
\<close>

fun format_f1 :: "pyfloat \<Rightarrow> pystr" where
  "format_f1 (Finite m e) =
     (let r = nat (round_half_even (10 * \<bar>m\<bar> * 2 ^ nat e) (2 ^ nat (- e)))
      in (if m < 0 then lit ''-'' else []) @ dec_digits (r div 10) @ lit ''.'' @ dec_digits (r mod 10))"
| "format_f1 NegZero = lit ''-0.0''"
| "format_f1 (Infinity b) = (if b then lit ''inf'' else lit ''-inf'')"
| "format_f1 NaN = lit ''nan''"

text \<open>\<open>min\<close> and \<open>max\<close> of a list of numbers; both raise on the empty list.\<close>

fun py_min :: "nat list \<Rightarrow> pyexc + nat" where
  "py_min [] = Inl (ValueError (lit ''min''))"
| "py_min (x # xs) = Inr (fold min xs x)"

fun py_max :: "nat list \<Rightarrow> pyexc + nat" where
  "py_max [] = Inl (ValueError (lit ''max''))"
| "py_max (x # xs) = Inr (fold max xs x)"

subsection \<open>\<open>collections.Counter\<close>\<close>

text \<open>
  What decides whether two values are the same dictionary key: numbers (booleans
  among them) by their value, strings by their text; lists and dicts are unhashable.
\<close>

datatype hkey = KNone | KNum rat | KInf bool | KNaN | KStr pystr

fun py_key :: "json \<Rightarrow> hkey option" where
  "py_key JNull = Some KNone"
| "py_key (JBool b) = Some (KNum (if b then 1 else 0))"
| "py_key (JInt i) = Some (KNum (of_int i))"
| "py_key (JFloat f) =
     (case f of
        Finite m e \<Rightarrow> Some (KNum (of_int m * (if 0 \<le> e then 2 ^ nat e else 1 / 2 ^ nat (- e))))
      | NegZero \<Rightarrow> Some (KNum 0)
      | Infinity b \<Rightarrow> Some (KInf b)
      | NaN \<Rightarrow> Some KNaN)"
| "py_key (JStr s) = Some (KStr s)"
| "py_key (JList xs) = None"
| "py_key (JDict kvs) = None"

text \<open>
  \<open>mapping[elem] = mapping.get(elem, 0) + 1\<close> on the items of the counter, in
  insertion order: an equal key keeps its place and its first spelling, a new key
  goes last.
\<close>

fun counter_incr :: "json \<Rightarrow> (json \<times> nat) list \<Rightarrow> (json \<times> nat) list" where
  "counter_incr v [] = [(v, 1)]"
| "counter_incr v ((k, c) # es) =
     (if py_key k = py_key v then (k, Suc c) # es else (k, c) # counter_incr v es)"

text \<open>\<open>Counter(elems)\<close>, from the items counted so far; hashing an unhashable element raises.\<close>

fun count_elements :: "(json \<times> nat) list \<Rightarrow> json list \<Rightarrow> pyexc + (json \<times> nat) list" where
  "count_elements acc [] = Inr acc"
| "count_elements acc (v # vs) =
     (case py_key v of
        None \<Rightarrow> Inl (TypeError (lit ''hash'') v)
      | Some h \<Rightarrow> count_elements (counter_incr v acc) vs)"

text \<open>
  \<open>most_common(n)\<close> is \<open>heapq.nlargest(n, items, key=count)\<close>, which the library
  documents as \<open>sorted(items, key=count, reverse=True)[:n]\<close>: a stable sort by
  descending count.
\<close>

definition most_common :: "nat \<Rightarrow> (json \<times> nat) list \<Rightarrow> (json \<times> nat) list" where
  "most_common n es = take n (sort_key (\<lambda>kc. - int (snd kc)) es)"

section \<open>\<open>inspect_dataset\<close>\<close>

subsection \<open>Conversation turn statistics (lines 32 to 37)\<close>

text \<open>\<open>len(item.get('conversation', []))\<close>\<close>

definition conversation_len :: "json \<Rightarrow> pyexc + nat" where
  "conversation_len item = then_exc (py_get item (lit ''conversation'') (JList [])) py_len"

definition conversation_statistics :: "(pystr \<times> json) list \<Rightarrow> json \<Rightarrow> run" where
  "conversation_statistics first_item data =
     (case map_of first_item (lit ''conversation'') of
        None \<Rightarrow> ([], None)
      | Some c \<Rightarrow>
          eval_then (then_exc (py_iter data) (map_exc conversation_len)) (\<lambda>lengths.
            runs [
              print_line (nl @ lit ''Conversation turn statistics:''),
              eval_then (py_min lengths) (\<lambda>m. print_line (lit ''  Min turns: '' @ dec_digits m)),
              eval_then (py_max lengths) (\<lambda>m. print_line (lit ''  Max turns: '' @ dec_digits m)),
              eval_then (true_div (sum_list lengths) (length lengths)) (\<lambda>avg.
                print_line (lit ''  Avg turns: '' @ format_f1 avg))]))"

subsection \<open>Top 5 languages (lines 40 to 45)\<close>

text \<open>\<open>[item.get('language') for item in data if item.get('language')]\<close>\<close>

definition languages_of :: "json list \<Rightarrow> pyexc + json list" where
  "languages_of items =
     then_exc (map_exc (\<lambda>item. py_get item (lit ''language'') JNull) items)
       (\<lambda>vs. Inr (filter truthy vs))"

text \<open>One line of the table: the value, its count and its share of \<open>len(data)\<close>.\<close>

definition language_line :: "pylib \<Rightarrow> nat \<Rightarrow> json \<times> nat \<Rightarrow> run" where
  "language_line L n lc =
     eval_then (true_div (100 * snd lc) n) (\<lambda>pct.
       print_line (lit ''  '' @ py_str L (fst lc) @ lit '': '' @ fmt_comma (snd lc) @
                   lit '' ('' @ format_f1 pct @ lit ''%)''))"

definition top_languages :: "pylib \<Rightarrow> (pystr \<times> json) list \<Rightarrow> json \<Rightarrow> run" where
  "top_languages L first_item data =
     (case map_of first_item (lit ''language'') of
        None \<Rightarrow> ([], None)
      | Some l \<Rightarrow>
          eval_then (then_exc (py_iter data) languages_of) (\<lambda>languages.
            eval_then (count_elements [] languages) (\<lambda>lang_counts.
              seq (print_line (nl @ lit ''Top 5 languages:''))
                (eval_then (py_len data) (\<lambda>n.
                   runs (map (language_line L n) (most_common 5 lang_counts)))))))"

subsection \<open>Example conversation (lines 49 to 64)\<close>

text \<open>One turn of a \<open>conversation\<close> field.\<close>

definition conversation_turn :: "pylib \<Rightarrow> json \<Rightarrow> run" where
  "conversation_turn L turn =
     eval_then (py_get turn (lit ''speaker_role'') (JStr (lit ''unknown''))) (\<lambda>d.
     eval_then (py_get turn (lit ''role'') d) (\<lambda>role.
     eval_then (py_get turn (lit ''utterance'') (JStr [])) (\<lambda>u.
     eval_then (py_get turn (lit ''content'') u) (\<lambda>c.
     eval_then (py_slice 100 c) (\<lambda>content.
       print_line (lit ''  ['' @ py_str L role @ lit '']: '' @ py_str L content @ lit ''...''))))))"

text \<open>One element of a \<open>messages\<close> field.\<close>

definition message_turn :: "pylib \<Rightarrow> json \<Rightarrow> run" where
  "message_turn L msg =
     eval_then (py_get msg (lit ''role'') (JStr (lit ''unknown''))) (\<lambda>role.
     eval_then (py_get msg (lit ''content'') (JStr [])) (\<lambda>c.
     eval_then (py_slice 100 c) (\<lambda>content.
       print_line (lit ''  ['' @ py_str L role @ lit '']: '' @ py_str L content @ lit ''...''))))"

text \<open>The \<open>if\<close>/\<open>elif\<close> chain on the fields of the first record.\<close>

definition example_conversation :: "pylib \<Rightarrow> (pystr \<times> json) list \<Rightarrow> run" where
  "example_conversation L first_item =
     (case map_of first_item (lit ''conversation'') of
        Some cv \<Rightarrow>
          eval_then (then_exc (py_slice 3 cv) py_iter) (\<lambda>conv.
            runs (map (conversation_turn L) conv))
      | None \<Rightarrow>
     (case map_of first_item (lit ''messages'') of
        Some mv \<Rightarrow>
          eval_then (then_exc (py_slice 2 mv) py_iter) (\<lambda>msgs.
            runs (map (message_turn L) msgs))
      | None \<Rightarrow>
     (case map_of first_item (lit ''chosen'') of
        Some ch \<Rightarrow>
          eval_then (py_slice 150 ch) (\<lambda>s.
            print_line (lit ''  [chosen]: '' @ py_str L s @ lit ''...''))
      | None \<Rightarrow>
          print_line (lit ''  Structure: '' @ take 300 (json_dumps L (JDict first_item)) @
                      lit ''...''))))"

subsection \<open>The whole function\<close>

text \<open>
  \<open>loaded\<close> is what \<open>open\<close> and \<open>json.load\<close> give for the file: the document, or
  the exception they raise. The glyphs of the headings are given by their code points.
\<close>

definition inspect_dataset :: "pylib \<Rightarrow> pystr \<Rightarrow> pyexc + json \<Rightarrow> run" where
  "inspect_dataset L name loaded =
     runs [
       print_line (nl @ rule80),
       print_line ([128202] @ lit '' '' @ name),
       print_line rule80,
       eval_then loaded (\<lambda>data.
       eval_then (py_len data) (\<lambda>n.
         seq (print_line (lit ''Total items: '' @ fmt_comma n))
           (if \<not> truthy data then print_line (lit ''Empty dataset!'')
            else
              eval_then (py_first data) (\<lambda>first.
              eval_then (as_dict (lit ''keys'') first) (\<lambda>first_item.
                runs [
                  print_line (nl @ lit ''Fields: '' @
                              py_repr L (JList (map (\<lambda>kv. JStr (fst kv)) first_item))),
                  conversation_statistics first_item data,
                  top_languages L first_item data,
                  print_line (nl @ [128221] @ lit '' Example conversation:''),
                  example_conversation L first_item])))))]"

section \<open>The script: every dataset in turn\<close>

text \<open>The body of the loop: \<open>try: inspect_dataset(json_file)\<close> and its \<open>except Exception\<close>.\<close>

definition inspect_guarded :: "pylib \<Rightarrow> pystr \<times> (pyexc + json) \<Rightarrow> pystr list" where
  "inspect_guarded L f =
     (case inspect_dataset L (fst f) (snd f) of
        (out, None) \<Rightarrow> out
      | (out, Some e) \<Rightarrow>
          out @ [nl @ [10060] @ lit '' Error inspecting '' @ fst f @ lit '': '' @ exc_str L e])"

fun inspect_each :: "pylib \<Rightarrow> (pystr \<times> (pyexc + json)) list \<Rightarrow> pystr list" where
  "inspect_each L [] = []"
| "inspect_each L (f # fs) = inspect_guarded L f @ inspect_each L fs"

text \<open>
  The script, on the sorted files of the directory, each with its name and what
  loading it gives: everything it prints.
\<close>

definition inspect_datasets :: "pylib \<Rightarrow> (pystr \<times> (pyexc + json)) list \<Rightarrow> pystr list" where
  "inspect_datasets L json_files =
     [rule80, [128269] @ lit '' AI CONVERSATION DATASETS INSPECTION'', rule80,
      nl @ lit ''Found '' @ dec_digits (length json_files) @ lit '' datasets''] @
     inspect_each L json_files @
     [nl @ rule80, [9989] @ lit '' Inspection complete!'', rule80]"

section \<open>The preview as the specification words it\<close>

text \<open>A value is a string.\<close>

fun is_text :: "json \<Rightarrow> bool" where
  "is_text (JStr s) = True"
| "is_text v = False"

text \<open>
  The line of one turn in the specification's words: the role in brackets, then the
  content truncated to 100 characters, then the dots.
\<close>

definition turn_preview :: "pylib \<Rightarrow> json \<Rightarrow> json \<Rightarrow> pystr" where
  "turn_preview L role content =
     lit ''  ['' @ py_str L role @ lit '']: '' @ take 100 (py_str L content) @ lit ''...''"

text \<open>
  The fallback of the specification: the value under the first key when the key is
  present, else the value under the second key when that one is present, else the
  default.
\<close>

definition resolve :: "(pystr \<times> json) list \<Rightarrow> pystr \<Rightarrow> pystr \<Rightarrow> json \<Rightarrow> json" where
  "resolve t k1 k2 d =
     (case map_of t k1 of
        Some v \<Rightarrow> v
      | None \<Rightarrow> (case map_of t k2 of Some v \<Rightarrow> v | None \<Rightarrow> d))"

section \<open>The statistics as the specification words them\<close>

text \<open>A value is a list.\<close>

fun is_list :: "json \<Rightarrow> bool" where
  "is_list (JList xs) = True"
| "is_list v = False"

text \<open>
  The number of turns of a record: the length of its \<open>conversation\<close> field, and 0 for
  a record without the field.
\<close>

definition turns_of :: "(pystr \<times> json) list \<Rightarrow> nat" where
  "turns_of r =
     (case map_of r (lit ''conversation'') of Some (JList turns) \<Rightarrow> length turns | _ \<Rightarrow> 0)"

text \<open>The \<open>language\<close> values of the records where the field is present and truthy.\<close>

definition present_languages :: "(pystr \<times> json) list list \<Rightarrow> json list" where
  "present_languages recs =
     filter truthy (map (\<lambda>r. case map_of r (lit ''language'') of Some v \<Rightarrow> v | None \<Rightarrow> JNull) recs)"

text \<open>How often a value occurs in a list of values, up to equality of keys.\<close>

definition occurrences :: "json \<Rightarrow> json list \<Rightarrow> nat" where
  "occurrences v vs = length (filter (\<lambda>w. py_key w = py_key v) vs)"

text \<open>The distinct values of a list, each at its first occurrence.\<close>

fun first_seen :: "json list \<Rightarrow> json list" where
  "first_seen [] = []"
| "first_seen (v # vs) = v # first_seen (filter (\<lambda>w. py_key w \<noteq> py_key v) vs)"

text \<open>
  The distinct values by descending number of occurrences, values with the same
  number in the order of their first occurrence (\<open>sort_key\<close> is a stable sort).
\<close>

definition ranking :: "json list \<Rightarrow> json list" where
  "ranking vs = sort_key (\<lambda>v. - int (occurrences v vs)) (first_seen vs)"

text \<open>A line of the language table: the value, its count, and its share of \<open>n\<close> records.\<close>

definition share_line :: "pylib \<Rightarrow> nat \<Rightarrow> json list \<Rightarrow> json \<Rightarrow> pystr" where
  "share_line L n vs v =
     lit ''  '' @ py_str L v @ lit '': '' @ fmt_comma (occurrences v vs) @ lit '' ('' @
     format_f1 (nearest_double (100 * occurrences v vs) n) @ lit ''%)''"

section \<open>Concrete inputs\<close>

text \<open>
  An instance of the three library functions for evaluating concrete runs: each
  returns a fixed text.
\<close>

definition sample_lib :: pylib where
  "sample_lib =
     \<lparr>py_repr = (\<lambda>v. lit ''<repr>''),
      json_dumps = (\<lambda>v. lit ''<json>''),
      exc_str = (\<lambda>e. lit ''<message>'')\<rparr>"

text \<open>A record with a conversation of \<open>n\<close> turns.\<close>

definition sample_turn :: json where
  "sample_turn = JDict [(lit ''role'', JStr (lit ''user'')), (lit ''content'', JStr (lit ''hello''))]"

definition sample_record :: "nat \<Rightarrow> (pystr \<times> json) list" where
  "sample_record n = [(lit ''conversation'', JList (replicate n sample_turn))]"

text \<open>A record with the language \<open>s\<close>.\<close>

definition language_record :: "string \<Rightarrow> (pystr \<times> json) list" where
  "language_record s = [(lit ''language'', JStr (lit s))]"

text \<open>The timestamp 2024-01-15 10:30:00, naive.\<close>

definition sample_time :: datetime where
  "sample_time =
     \<lparr>year = 2024, month = 1, day = 15, hour = 10, minute = 30, second = 0,
      microsecond = 0, utcoffset = None\<rparr>"

section \<open>Evaluation of concrete texts\<close>

lemma replicate_numeral: "replicate (numeral k) x = x # replicate (pred_numeral k) x"
  by (simp add: numeral_eq_Suc)

lemmas text_eval =
  lit_def dec_digits.simps zero_pad_def replicate_numeral fmt_comma.simps int_str_def

lemmas float_eval =
  nearest_double_def ratio_ge_def round_half_even_def bit_length.simps Let_def true_div_def

lemma isoformat_sample_time: "isoformat sample_time = lit ''2024-01-15T10:30:00''"
  by (simp add: isoformat_def sample_time_def format_offset_def text_eval)

section \<open>Properties of the normalizer\<close>

lemma serialize_item_items:
  "map (map_prod id serialize_item) kvs = map (\<lambda>(k, v). (k, serialize_item v)) kvs"
  by (induction kvs) auto

text \<open>
  C2, as the code has it: on a list, \<open>serialize_item\<close> returns a list of the same
  length whose element at every position is the normalized element of the input at
  that position; a tuple it returns as it is.
\<close>

theorem serialize_item_list:
  "(\<exists>ys. serialize_item (PList xs) = PList ys \<and> length ys = length xs \<and>
     (\<forall>i<length xs. ys ! i = serialize_item (xs ! i))) \<and>
   serialize_item (PTuple xs) = PTuple xs"
  by simp

theorem serialize_item_list_witness:
  "serialize_item (PList [PInt 7, PDatetime sample_time, PList [PDatetime sample_time]]) =
     PList [PInt 7, PStr (lit ''2024-01-15T10:30:00''), PList [PStr (lit ''2024-01-15T10:30:00'')]]"
  using serialize_item_list [of "[PInt 7, PDatetime sample_time, PList [PDatetime sample_time]]"]
  by (simp add: isoformat_sample_time)

text \<open>
  A tuple is a sequence that is neither a mapping nor a string, and the timestamp in
  the tuple \<open>(datetime(2024, 1, 15, 10, 30),)\<close> comes back unconverted, although
  normalizing the timestamp itself gives its text.
\<close>

theorem tuple_returned_unchanged:
  "serialize_item (PTuple [PDatetime sample_time]) = PTuple [PDatetime sample_time] \<and>
   serialize_item (PDatetime sample_time) = PStr (lit ''2024-01-15T10:30:00'') \<and>
   PTuple [PDatetime sample_time] \<noteq> PTuple [serialize_item (PDatetime sample_time)]"
  by (simp add: isoformat_sample_time)

text \<open>
  C5: normalization is idempotent, on every value (mappings, lists, tuples, scalars,
  timestamps and foreign objects, nested in any way).
\<close>

theorem serialize_item_idempotent: "serialize_item (serialize_item x) = serialize_item x"
proof (induction x)
  case (PDict kvs)
  have "map_prod id serialize_item (map_prod id serialize_item kv) = map_prod id serialize_item kv"
    if "kv \<in> set kvs" for kv
    using PDict [of kv "snd kv"] that by (cases kv) simp
  then show ?case by simp
qed simp_all




section \<open>Runs of statements\<close>

lemma seq_ok [simp]: "seq (xs, None) r = (xs @ fst r, snd r)"
  by (simp add: seq_def)

lemma seq_raise [simp]: "seq (xs, Some e) r = (xs, Some e)"
  by (simp add: seq_def)

lemma eval_then_Inr [simp]: "eval_then (Inr x) f = f x"
  by (simp add: eval_then_def)

lemma eval_then_Inl [simp]: "eval_then (Inl e) f = ([], Some e)"
  by (simp add: eval_then_def)

lemma then_exc_Inr [simp]: "then_exc (Inr x) f = f x"
  by (simp add: then_exc_def)

lemma then_exc_Inl [simp]: "then_exc (Inl e) f = Inl e"
  by (simp add: then_exc_def)

lemma runs_prints:
  "(\<And>x. x \<in> set xs \<Longrightarrow> f x = print_line (g x)) \<Longrightarrow> runs (map f xs) = (map g xs, None)"
  by (induction xs) (simp_all add: print_line_def)

lemma set_fst_seq: "set (fst (seq r1 r2)) \<subseteq> set (fst r1) \<union> set (fst r2)"
  by (cases r1; cases "snd r1") (auto simp: seq_def)

lemma lines_print: "P s \<Longrightarrow> \<forall>l\<in>set (fst (print_line s)). P l"
  by (simp add: print_line_def)

lemma lines_eval_then:
  "(\<And>x. \<forall>l\<in>set (fst (f x)). P l) \<Longrightarrow> \<forall>l\<in>set (fst (eval_then r f)). P l"
  by (cases r) simp_all

lemma lines_seq:
  "\<forall>l\<in>set (fst r1). P l \<Longrightarrow> \<forall>l\<in>set (fst r2). P l \<Longrightarrow> \<forall>l\<in>set (fst (seq r1 r2)). P l"
  using set_fst_seq [of r1 r2] by auto

lemma lines_runs:
  "\<forall>r\<in>set rs. \<forall>l\<in>set (fst r). P l \<Longrightarrow> \<forall>l\<in>set (fst (runs rs)). P l"
proof (induction rs)
  case Nil
  show ?case by simp
next
  case (Cons r rs)
  then have "\<forall>l\<in>set (fst r). P l" and "\<forall>l\<in>set (fst (runs rs)). P l"
    by simp_all
  then show ?case
    unfolding runs.simps by (rule lines_seq)
qed

section \<open>The example preview\<close>

lemma conversation_turn_dots:
  "\<forall>l\<in>set (fst (conversation_turn L turn)). \<exists>p. l = p @ lit ''...''"
  unfolding conversation_turn_def
  by (intro lines_eval_then lines_print) simp

lemma message_turn_dots:
  "\<forall>l\<in>set (fst (message_turn L msg)). \<exists>p. l = p @ lit ''...''"
  unfolding message_turn_def
  by (intro lines_eval_then lines_print) simp

text \<open>
  C10: every line the example preview prints (a conversation turn, a message, the
  chosen value or the structure of the record) ends with the three dots, whatever
  the length of the content; also the lines printed before an exception ends the
  preview.
\<close>

theorem preview_lines_end_with_dots:
  "\<forall>l \<in> set (fst (example_conversation L first_item)). \<exists>p. l = p @ lit ''...''"
proof -
  have conv: "\<forall>l\<in>set (fst (eval_then (then_exc (py_slice 3 cv) py_iter)
        (\<lambda>conv. runs (map (conversation_turn L) conv)))). \<exists>p. l = p @ lit ''...''" for cv
    by (intro lines_eval_then lines_runs) (simp add: conversation_turn_dots)
  have msgs: "\<forall>l\<in>set (fst (eval_then (then_exc (py_slice 2 mv) py_iter)
        (\<lambda>msgs. runs (map (message_turn L) msgs)))). \<exists>p. l = p @ lit ''...''" for mv
    by (intro lines_eval_then lines_runs) (simp add: message_turn_dots)
  have chosen: "\<forall>l\<in>set (fst (eval_then (py_slice 150 ch)
        (\<lambda>s. print_line (lit ''  [chosen]: '' @ py_str L s @ lit ''...'')))). \<exists>p. l = p @ lit ''...''" for ch
    by (intro lines_eval_then lines_print) simp
  have other: "\<forall>l\<in>set (fst (print_line (lit ''  Structure: '' @
        take 300 (json_dumps L (JDict first_item)) @ lit ''...''))). \<exists>p. l = p @ lit ''...''"
    by (intro lines_print) simp
  show ?thesis
    unfolding example_conversation_def
    using conv msgs chosen other by (simp split: option.split)
qed

theorem preview_lines_end_with_dots_witness:
  "fst (example_conversation sample_lib [(lit ''chosen'', JStr (lit ''ok''))]) = [lit ''  [chosen]: ok...''] \<and>
   (\<exists>p. lit ''  [chosen]: ok...'' = p @ lit ''...'')"
  using preview_lines_end_with_dots [of sample_lib "[(lit ''chosen'', JStr (lit ''ok''))]"]
  by (simp add: example_conversation_def print_line_def lit_def)

lemma py_get_dict [simp]: "py_get (JDict kvs) k d = Inr (dict_get kvs k d)"
  by (simp add: py_get_def)

lemma conversation_turn_dict:
  "conversation_turn L (JDict t) =
     eval_then (py_slice 100 (dict_get t (lit ''content'') (dict_get t (lit ''utterance'') (JStr []))))
       (\<lambda>content. print_line (lit ''  ['' @
          py_str L (dict_get t (lit ''role'') (dict_get t (lit ''speaker_role'') (JStr (lit ''unknown'')))) @
          lit '']: '' @ py_str L content @ lit ''...''))"
  by (simp add: conversation_turn_def)

lemma message_turn_dict:
  "message_turn L (JDict t) =
     eval_then (py_slice 100 (dict_get t (lit ''content'') (JStr [])))
       (\<lambda>content. print_line (lit ''  ['' @
          py_str L (dict_get t (lit ''role'') (JStr (lit ''unknown''))) @
          lit '']: '' @ py_str L content @ lit ''...''))"
  by (simp add: message_turn_def)

lemma is_text_slice:
  "is_text c \<Longrightarrow> eval_then (py_slice n c) f = f (JStr (take n (py_str L c)))"
  by (cases c) simp_all

lemma conversation_turn_text:
  "is_text (dict_get t (lit ''content'') (dict_get t (lit ''utterance'') (JStr []))) \<Longrightarrow>
   conversation_turn L (JDict t) =
     print_line (turn_preview L
       (dict_get t (lit ''role'') (dict_get t (lit ''speaker_role'') (JStr (lit ''unknown''))))
       (dict_get t (lit ''content'') (dict_get t (lit ''utterance'') (JStr []))))"
  by (simp add: conversation_turn_dict is_text_slice [where L = L] turn_preview_def)

lemma message_turn_text:
  "is_text (dict_get t (lit ''content'') (JStr [])) \<Longrightarrow>
   message_turn L (JDict t) =
     print_line (turn_preview L (dict_get t (lit ''role'') (JStr (lit ''unknown'')))
       (dict_get t (lit ''content'') (JStr [])))"
  by (simp add: message_turn_dict is_text_slice [where L = L] turn_preview_def)

text \<open>
  C4: the preview of the first record follows a strict priority. With a
  \<open>conversation\<close> field (a list of turns with textual content) it is one line for each
  of the first 3 turns, the content cut to 100 characters; else with a \<open>messages\<close> field
  it is one line for each of the first 2 messages, cut to 100 characters; else with a
  \<open>chosen\<close> field holding a string it is the one line labelled \<open>[chosen]\<close> with the
  first 150 characters; else it is the serialized record cut to 300 characters.
\<close>

theorem example_conversation_priority:
  "(map_of first_item (lit ''conversation'') = Some (JList (map JDict turns)) \<and>
    (\<forall>t\<in>set (take 3 turns).
       is_text (dict_get t (lit ''content'') (dict_get t (lit ''utterance'') (JStr [])))) \<longrightarrow>
    example_conversation L first_item =
      (map (\<lambda>t. turn_preview L
                 (dict_get t (lit ''role'') (dict_get t (lit ''speaker_role'') (JStr (lit ''unknown''))))
                 (dict_get t (lit ''content'') (dict_get t (lit ''utterance'') (JStr []))))
         (take 3 turns), None)) \<and>
   (map_of first_item (lit ''conversation'') = None \<and>
    map_of first_item (lit ''messages'') = Some (JList (map JDict msgs)) \<and>
    (\<forall>m\<in>set (take 2 msgs). is_text (dict_get m (lit ''content'') (JStr []))) \<longrightarrow>
    example_conversation L first_item =
      (map (\<lambda>m. turn_preview L (dict_get m (lit ''role'') (JStr (lit ''unknown'')))
                 (dict_get m (lit ''content'') (JStr [])))
         (take 2 msgs), None)) \<and>
   (map_of first_item (lit ''conversation'') = None \<and>
    map_of first_item (lit ''messages'') = None \<and>
    map_of first_item (lit ''chosen'') = Some (JStr s) \<longrightarrow>
    example_conversation L first_item = ([lit ''  [chosen]: '' @ take 150 s @ lit ''...''], None)) \<and>
   (map_of first_item (lit ''conversation'') = None \<and>
    map_of first_item (lit ''messages'') = None \<and>
    map_of first_item (lit ''chosen'') = None \<longrightarrow>
    example_conversation L first_item =
      ([lit ''  Structure: '' @ take 300 (json_dumps L (JDict first_item)) @ lit ''...''], None))"
proof (intro conjI impI)
  assume h: "map_of first_item (lit ''conversation'') = Some (JList (map JDict turns)) \<and>
    (\<forall>t\<in>set (take 3 turns).
       is_text (dict_get t (lit ''content'') (dict_get t (lit ''utterance'') (JStr []))))"
  have "runs (map (conversation_turn L) (map JDict (take 3 turns))) =
      (map (\<lambda>t. turn_preview L
                 (dict_get t (lit ''role'') (dict_get t (lit ''speaker_role'') (JStr (lit ''unknown''))))
                 (dict_get t (lit ''content'') (dict_get t (lit ''utterance'') (JStr []))))
         (take 3 turns), None)"
    unfolding map_map by (rule runs_prints) (simp add: h conversation_turn_text)
  then show "example_conversation L first_item =
      (map (\<lambda>t. turn_preview L
                 (dict_get t (lit ''role'') (dict_get t (lit ''speaker_role'') (JStr (lit ''unknown''))))
                 (dict_get t (lit ''content'') (dict_get t (lit ''utterance'') (JStr []))))
         (take 3 turns), None)"
    using h by (simp add: example_conversation_def take_map)
next
  assume h: "map_of first_item (lit ''conversation'') = None \<and>
    map_of first_item (lit ''messages'') = Some (JList (map JDict msgs)) \<and>
    (\<forall>m\<in>set (take 2 msgs). is_text (dict_get m (lit ''content'') (JStr [])))"
  have "runs (map (message_turn L) (map JDict (take 2 msgs))) =
      (map (\<lambda>m. turn_preview L (dict_get m (lit ''role'') (JStr (lit ''unknown'')))
                 (dict_get m (lit ''content'') (JStr [])))
         (take 2 msgs), None)"
    unfolding map_map by (rule runs_prints) (simp add: h message_turn_text)
  then show "example_conversation L first_item =
      (map (\<lambda>m. turn_preview L (dict_get m (lit ''role'') (JStr (lit ''unknown'')))
                 (dict_get m (lit ''content'') (JStr [])))
         (take 2 msgs), None)"
    using h by (simp add: example_conversation_def take_map)
next
  assume "map_of first_item (lit ''conversation'') = None \<and>
    map_of first_item (lit ''messages'') = None \<and>
    map_of first_item (lit ''chosen'') = Some (JStr s)"
  then show "example_conversation L first_item = ([lit ''  [chosen]: '' @ take 150 s @ lit ''...''], None)"
    by (simp add: example_conversation_def print_line_def)
next
  assume "map_of first_item (lit ''conversation'') = None \<and>
    map_of first_item (lit ''messages'') = None \<and>
    map_of first_item (lit ''chosen'') = None"
  then show "example_conversation L first_item =
      ([lit ''  Structure: '' @ take 300 (json_dumps L (JDict first_item)) @ lit ''...''], None)"
    by (simp add: example_conversation_def print_line_def)
qed


theorem example_conversation_priority_witness:
  "example_conversation sample_lib
     [(lit ''conversation'', JList (map JDict
         [[(lit ''role'', JStr (lit ''user'')), (lit ''content'', JStr (replicate 120 97))],
          [(lit ''speaker_role'', JStr (lit ''bot'')), (lit ''utterance'', JStr (lit ''hi''))],
          [],
          [(lit ''content'', JNull)]])),
      (lit ''messages'', JList []), (lit ''chosen'', JStr (lit ''x''))] =
     ([lit ''  [user]: '' @ replicate 100 97 @ lit ''...'',
       lit ''  [bot]: hi...'',
       lit ''  [unknown]: ...''], None) \<and>
   example_conversation sample_lib
     [(lit ''messages'', JList (map JDict
         [[(lit ''role'', JStr (lit ''user'')), (lit ''content'', JStr (lit ''hello''))],
          [(lit ''content'', JStr (lit ''hi''))],
          [(lit ''content'', JNull)]])),
      (lit ''chosen'', JStr (lit ''x''))] =
     ([lit ''  [user]: hello...'', lit ''  [unknown]: hi...''], None) \<and>
   example_conversation sample_lib [(lit ''chosen'', JStr (replicate 151 98))] =
     ([lit ''  [chosen]: '' @ replicate 150 98 @ lit ''...''], None) \<and>
   example_conversation sample_lib [(lit ''prompt'', JStr (lit ''x''))] =
     ([lit ''  Structure: <json>...''], None)"
  using
    example_conversation_priority [of
      "[(lit ''conversation'', JList (map JDict
         [[(lit ''role'', JStr (lit ''user'')), (lit ''content'', JStr (replicate 120 97))],
          [(lit ''speaker_role'', JStr (lit ''bot'')), (lit ''utterance'', JStr (lit ''hi''))],
          [],
          [(lit ''content'', JNull)]])),
        (lit ''messages'', JList []), (lit ''chosen'', JStr (lit ''x''))]"
      "[[(lit ''role'', JStr (lit ''user'')), (lit ''content'', JStr (replicate 120 97))],
          [(lit ''speaker_role'', JStr (lit ''bot'')), (lit ''utterance'', JStr (lit ''hi''))],
          [],
          [(lit ''content'', JNull)]]" sample_lib "[]" "[]"]
    example_conversation_priority [of
      "[(lit ''messages'', JList (map JDict
         [[(lit ''role'', JStr (lit ''user'')), (lit ''content'', JStr (lit ''hello''))],
          [(lit ''content'', JStr (lit ''hi''))],
          [(lit ''content'', JNull)]])),
        (lit ''chosen'', JStr (lit ''x''))]"
      "[]" sample_lib
      "[[(lit ''role'', JStr (lit ''user'')), (lit ''content'', JStr (lit ''hello''))],
          [(lit ''content'', JStr (lit ''hi''))],
          [(lit ''content'', JNull)]]" "[]"]
    example_conversation_priority [of "[(lit ''chosen'', JStr (replicate 151 98))]" "[]" sample_lib "[]" "replicate 151 98"]
    example_conversation_priority [of "[(lit ''prompt'', JStr (lit ''x''))]" "[]" sample_lib "[]" "[]"]
  by (simp add: turn_preview_def dict_get_def sample_lib_def lit_def eval_nat_numeral(1))

lemma resolve_dict_get: "dict_get t k1 (dict_get t k2 d) = resolve t k1 k2 d"
  by (simp add: resolve_def dict_get_def split: option.split)

text \<open>
  C9: in the preview of a conversation the fallback from \<open>role\<close> to \<open>speaker_role\<close> to
  \<open>unknown\<close>, and from \<open>content\<close> to \<open>utterance\<close> to the empty string, is taken only
  when the earlier key is absent from the turn. A \<open>role\<close> that is present with the value
  null or the empty string is rendered as it is (\<open>None\<close>, or nothing, between the
  brackets); a \<open>content\<close> that is present is sliced as it is, and a value that cannot be
  sliced raises.
\<close>

theorem fallback_only_when_key_absent:
  "conversation_turn L (JDict t) =
     (case resolve t (lit ''content'') (lit ''utterance'') (JStr []) of
        JStr s \<Rightarrow>
          ([lit ''  ['' @
            py_str L (resolve t (lit ''role'') (lit ''speaker_role'') (JStr (lit ''unknown''))) @
            lit '']: '' @ take 100 s @ lit ''...''], None)
      | JList xs \<Rightarrow>
          ([lit ''  ['' @
            py_str L (resolve t (lit ''role'') (lit ''speaker_role'') (JStr (lit ''unknown''))) @
            lit '']: '' @ py_repr L (JList (take 100 xs)) @ lit ''...''], None)
      | v \<Rightarrow> ([], Some (TypeError (lit ''getitem'') v))) \<and>
   (map_of t k1 = Some v \<longrightarrow> resolve t k1 k2 d = v) \<and>
   (map_of t k1 = None \<and> map_of t k2 = Some v \<longrightarrow> resolve t k1 k2 d = v) \<and>
   (map_of t k1 = None \<and> map_of t k2 = None \<longrightarrow> resolve t k1 k2 d = d) \<and>
   (map_of t (lit ''role'') = Some JNull \<and> map_of t (lit ''content'') = Some (JStr c) \<longrightarrow>
      conversation_turn L (JDict t) = ([lit ''  [None]: '' @ take 100 c @ lit ''...''], None)) \<and>
   (map_of t (lit ''role'') = Some (JStr []) \<and> map_of t (lit ''content'') = Some (JStr c) \<longrightarrow>
      conversation_turn L (JDict t) = ([lit ''  []: '' @ take 100 c @ lit ''...''], None))"
proof -
  have turn: "conversation_turn L (JDict t) =
     (case resolve t (lit ''content'') (lit ''utterance'') (JStr []) of
        JStr s \<Rightarrow>
          ([lit ''  ['' @
            py_str L (resolve t (lit ''role'') (lit ''speaker_role'') (JStr (lit ''unknown''))) @
            lit '']: '' @ take 100 s @ lit ''...''], None)
      | JList xs \<Rightarrow>
          ([lit ''  ['' @
            py_str L (resolve t (lit ''role'') (lit ''speaker_role'') (JStr (lit ''unknown''))) @
            lit '']: '' @ py_repr L (JList (take 100 xs)) @ lit ''...''], None)
      | v \<Rightarrow> ([], Some (TypeError (lit ''getitem'') v)))"
    by (simp add: conversation_turn_dict resolve_dict_get print_line_def split: json.split)
  show ?thesis
    unfolding turn by (simp add: resolve_def lit_def)
qed

theorem fallback_only_when_key_absent_witness:
  "conversation_turn sample_lib
     (JDict [(lit ''role'', JNull), (lit ''speaker_role'', JStr (lit ''bot'')),
             (lit ''content'', JStr (lit ''hi'')), (lit ''utterance'', JStr (lit ''yo''))]) =
     ([lit ''  [None]: hi...''], None) \<and>
   conversation_turn sample_lib
     (JDict [(lit ''role'', JStr []), (lit ''speaker_role'', JStr (lit ''bot'')),
             (lit ''content'', JStr []), (lit ''utterance'', JStr (lit ''yo''))]) =
     ([lit ''  []: ...''], None) \<and>
   conversation_turn sample_lib
     (JDict [(lit ''speaker_role'', JStr (lit ''bot'')), (lit ''utterance'', JStr (lit ''yo''))]) =
     ([lit ''  [bot]: yo...''], None) \<and>
   conversation_turn sample_lib
     (JDict [(lit ''role'', JStr (lit ''user'')), (lit ''content'', JNull),
             (lit ''utterance'', JStr (lit ''yo''))]) =
     ([], Some (TypeError (lit ''getitem'') JNull))"
  using
    fallback_only_when_key_absent [where L = sample_lib and c = "lit ''hi''" and
      t = "[(lit ''role'', JNull), (lit ''speaker_role'', JStr (lit ''bot'')),
            (lit ''content'', JStr (lit ''hi'')), (lit ''utterance'', JStr (lit ''yo''))]"]
    fallback_only_when_key_absent [where L = sample_lib and c = "[]" and
      t = "[(lit ''role'', JStr []), (lit ''speaker_role'', JStr (lit ''bot'')),
            (lit ''content'', JStr []), (lit ''utterance'', JStr (lit ''yo''))]"]
    fallback_only_when_key_absent [where L = sample_lib and
      t = "[(lit ''speaker_role'', JStr (lit ''bot'')), (lit ''utterance'', JStr (lit ''yo''))]"]
    fallback_only_when_key_absent [where L = sample_lib and
      t = "[(lit ''role'', JStr (lit ''user'')), (lit ''content'', JNull),
            (lit ''utterance'', JStr (lit ''yo''))]"]
  by (simp add: resolve_def lit_def)

section \<open>The empty dataset\<close>

text \<open>
  C8: on the empty dataset \<open>inspect_dataset\<close> prints the heading, a count of 0 and
  the notice of emptiness, and returns without an exception: no field listing, no
  statistics, no language table and no preview are printed, and \<open>min\<close> and \<open>max\<close> are
  not evaluated.
\<close>

theorem empty_dataset:
  "inspect_dataset L name (Inr (JList [])) =
     ([nl @ rule80, [128202] @ lit '' '' @ name, rule80, lit ''Total items: 0'', lit ''Empty dataset!''], None)"
  by (simp add: inspect_dataset_def print_line_def text_eval)

section \<open>Conversation turn statistics\<close>

lemma conversation_len_dict:
  "\<forall>v. map_of r (lit ''conversation'') = Some v \<longrightarrow> is_list v \<Longrightarrow>
   conversation_len (JDict r) = Inr (turns_of r)"
  by (cases "map_of r (lit ''conversation'')")
     (auto simp: conversation_len_def dict_get_def turns_of_def elim: is_list.elims)

lemma conversation_lengths:
  "\<forall>r\<in>set recs. \<forall>v. map_of r (lit ''conversation'') = Some v \<longrightarrow> is_list v \<Longrightarrow>
   map_exc conversation_len (map JDict recs) = Inr (map turns_of recs)"
  by (induction recs) (simp_all add: conversation_len_dict)

lemma py_min_Min: "ls \<noteq> [] \<Longrightarrow> py_min ls = Inr (Min (set ls))"
  by (cases ls) (simp_all add: Min.set_eq_fold [symmetric])

lemma py_max_Max: "ls \<noteq> [] \<Longrightarrow> py_max ls = Inr (Max (set ls))"
  by (cases ls) (simp_all add: Max.set_eq_fold [symmetric])

lemma round_half_even_nonneg: "0 \<le> n \<Longrightarrow> 0 \<le> d \<Longrightarrow> 0 \<le> round_half_even n d"
proof -
  assume "0 \<le> n" "0 \<le> d"
  then have "0 \<le> n div d"
    by (cases "d = 0") (simp_all add: pos_imp_zdiv_nonneg_iff)
  then show ?thesis
    by (simp add: round_half_even_def Let_def)
qed

lemma nearest_double_nonneg: "\<exists>m e. 0 \<le> m \<and> nearest_double a b = Finite m e"
  by (simp add: nearest_double_def Let_def round_half_even_nonneg)

lemma format_f1_one_decimal:
  "\<exists>n d. d < 10 \<and> format_f1 (nearest_double a b) = dec_digits n @ lit ''.'' @ [48 + d]"
proof -
  obtain m e where m: "0 \<le> m" and eq: "nearest_double a b = Finite m e"
    using nearest_double_nonneg by blast
  define r where "r = nat (round_half_even (10 * \<bar>m\<bar> * 2 ^ nat e) (2 ^ nat (- e)))"
  have "format_f1 (Finite m e) = dec_digits (r div 10) @ lit ''.'' @ [48 + r mod 10]"
    using m by (simp add: r_def Let_def dec_digits.simps [of "_ mod 10"])
  moreover have "r mod 10 < 10" by simp
  ultimately show ?thesis unfolding eq by blast
qed


lemma inspect_dataset_lines:
  "fst (inspect_dataset L name (Inr (JList (map JDict (first_item # rest))))) =
     [nl @ rule80, [128202] @ lit '' '' @ name, rule80,
      lit ''Total items: '' @ fmt_comma (Suc (length rest)),
      nl @ lit ''Fields: '' @ py_repr L (JList (map (\<lambda>kv. JStr (fst kv)) first_item))] @
     fst (conversation_statistics first_item (JList (map JDict (first_item # rest)))) @
     (case snd (conversation_statistics first_item (JList (map JDict (first_item # rest)))) of
        Some e \<Rightarrow> []
      | None \<Rightarrow>
          fst (top_languages L first_item (JList (map JDict (first_item # rest)))) @
          (case snd (top_languages L first_item (JList (map JDict (first_item # rest)))) of
             Some e \<Rightarrow> []
           | None \<Rightarrow>
               (nl @ [128221] @ lit '' Example conversation:'') #
               fst (example_conversation L first_item)))"
  by (simp add: inspect_dataset_def print_line_def seq_def split: option.split)

text \<open>
  C1, as the code has it: when the first record of a dataset has a \<open>conversation\<close>
  field (the field being a list wherever a record has it), \<open>inspect_dataset\<close> takes the
  length of the field of every record, 0 for a record without it, and prints the
  minimum, the maximum and the mean of these lengths. The mean is the floating-point
  quotient of the sum by the number of records, printed with exactly one digit after
  the decimal point.
\<close>

theorem conversation_statistics_report:
  "map_of first_item (lit ''conversation'') = Some c \<and>
   (\<forall>r\<in>set (first_item # rest). \<forall>v. map_of r (lit ''conversation'') = Some v \<longrightarrow> is_list v) \<longrightarrow>
   conversation_statistics first_item (JList (map JDict (first_item # rest))) =
     ([nl @ lit ''Conversation turn statistics:'',
       lit ''  Min turns: '' @ dec_digits (Min (set (map turns_of (first_item # rest)))),
       lit ''  Max turns: '' @ dec_digits (Max (set (map turns_of (first_item # rest)))),
       lit ''  Avg turns: '' @
         format_f1 (nearest_double (sum_list (map turns_of (first_item # rest))) (Suc (length rest)))],
      None) \<and>
   (\<exists>before after.
      fst (inspect_dataset L name (Inr (JList (map JDict (first_item # rest))))) =
        before @
        [nl @ lit ''Conversation turn statistics:'',
         lit ''  Min turns: '' @ dec_digits (Min (set (map turns_of (first_item # rest)))),
         lit ''  Max turns: '' @ dec_digits (Max (set (map turns_of (first_item # rest)))),
         lit ''  Avg turns: '' @
           format_f1 (nearest_double (sum_list (map turns_of (first_item # rest))) (Suc (length rest)))] @
        after) \<and>
   (\<exists>n d. d < 10 \<and>
      format_f1 (nearest_double (sum_list (map turns_of (first_item # rest))) (Suc (length rest))) =
        dec_digits n @ lit ''.'' @ [48 + d])"
proof (intro impI)
  assume h: "map_of first_item (lit ''conversation'') = Some c \<and>
   (\<forall>r\<in>set (first_item # rest). \<forall>v. map_of r (lit ''conversation'') = Some v \<longrightarrow> is_list v)"
  let ?data = "JList (map JDict (first_item # rest))"
  let ?ls = "map turns_of (first_item # rest)"
  let ?lines = "[nl @ lit ''Conversation turn statistics:'',
       lit ''  Min turns: '' @ dec_digits (Min (set ?ls)),
       lit ''  Max turns: '' @ dec_digits (Max (set ?ls)),
       lit ''  Avg turns: '' @ format_f1 (nearest_double (sum_list ?ls) (Suc (length rest)))]"
  have lengths: "map_exc conversation_len (map JDict (first_item # rest)) = Inr ?ls"
    using h by (intro conversation_lengths) simp
  have stats: "conversation_statistics first_item ?data = (?lines, None)"
    unfolding conversation_statistics_def
    using h lengths py_min_Min [of ?ls] py_max_Max [of ?ls]
    by (simp add: print_line_def true_div_def del: map_exc.simps list.map)
  have "fst (inspect_dataset L name (Inr ?data)) =
      [nl @ rule80, [128202] @ lit '' '' @ name, rule80,
       lit ''Total items: '' @ fmt_comma (Suc (length rest)),
       nl @ lit ''Fields: '' @ py_repr L (JList (map (\<lambda>kv. JStr (fst kv)) first_item))] @
      ?lines @
      (fst (top_languages L first_item ?data) @
          (case snd (top_languages L first_item ?data) of
             Some e \<Rightarrow> []
           | None \<Rightarrow>
               (nl @ [128221] @ lit '' Example conversation:'') #
               fst (example_conversation L first_item)))"
    unfolding inspect_dataset_lines stats by simp
  then have "\<exists>before after. fst (inspect_dataset L name (Inr ?data)) = before @ ?lines @ after"
    by blast
  with stats format_f1_one_decimal
  show "conversation_statistics first_item ?data = (?lines, None) \<and>
    (\<exists>before after. fst (inspect_dataset L name (Inr ?data)) = before @ ?lines @ after) \<and>
    (\<exists>n d. d < 10 \<and>
      format_f1 (nearest_double (sum_list ?ls) (Suc (length rest))) =
        dec_digits n @ lit ''.'' @ [48 + d])"
    by blast
qed


theorem conversation_statistics_report_witness:
  "conversation_statistics (sample_record 4)
     (JList (map JDict [sample_record 4, [(lit ''id'', JInt 1)], sample_record 1])) =
     ([nl @ lit ''Conversation turn statistics:'',
       lit ''  Min turns: 0'', lit ''  Max turns: 4'', lit ''  Avg turns: 1.7''], None)"
  using conversation_statistics_report [of "sample_record 4" "JList (replicate 4 sample_turn)"
      "[[(lit ''id'', JInt 1)], sample_record 1]" sample_lib "[]"]
  by (simp add: conversation_statistics_def conversation_len_def sample_record_def
        py_get_def dict_get_def print_line_def text_eval float_eval)

text \<open>
  On three records with conversations of 2, 5 and 3 turns the mean is printed as
  \<open>3.3\<close>: one decimal place, not two or more.
\<close>

theorem mean_rendered_with_one_decimal:
  "conversation_statistics (sample_record 2)
     (JList (map JDict [sample_record 2, sample_record 5, sample_record 3])) =
     ([nl @ lit ''Conversation turn statistics:'',
       lit ''  Min turns: 2'', lit ''  Max turns: 5'', lit ''  Avg turns: 3.3''], None) \<and>
   inspect_dataset sample_lib (lit ''lengths.json'')
     (Inr (JList (map JDict [sample_record 2, sample_record 5, sample_record 3]))) =
     ([nl @ rule80, [128202] @ lit '' lengths.json'', rule80,
       lit ''Total items: 3'',
       nl @ lit ''Fields: <repr>'',
       nl @ lit ''Conversation turn statistics:'',
       lit ''  Min turns: 2'', lit ''  Max turns: 5'', lit ''  Avg turns: 3.3'',
       nl @ [128221] @ lit '' Example conversation:'',
       lit ''  [user]: hello...'', lit ''  [user]: hello...''], None)"
  by (simp add: inspect_dataset_def top_languages_def example_conversation_def
        conversation_turn_def sample_turn_def sample_lib_def
        conversation_statistics_def conversation_len_def sample_record_def
        py_get_def dict_get_def print_line_def text_eval float_eval)

section \<open>The language table\<close>

lemma languages_of_dicts:
  "languages_of (map JDict recs) = Inr (present_languages recs)"
proof -
  have "map_exc (\<lambda>item. py_get item (lit ''language'') JNull) (map JDict recs) =
      Inr (map (\<lambda>r. case map_of r (lit ''language'') of Some v \<Rightarrow> v | None \<Rightarrow> JNull) recs)"
    by (induction recs) (simp_all add: dict_get_def split: option.split)
  then show ?thesis
    by (simp add: languages_of_def present_languages_def)
qed

lemma counter_incr_absent:
  "py_key v \<notin> set (map (\<lambda>kc. py_key (fst kc)) acc) \<Longrightarrow> counter_incr v acc = acc @ [(v, 1)]"
  by (induction acc) auto

lemma counter_incr_present:
  "distinct (map (\<lambda>kc. py_key (fst kc)) acc) \<Longrightarrow>
   py_key v \<in> set (map (\<lambda>kc. py_key (fst kc)) acc) \<Longrightarrow>
   counter_incr v acc =
     map (\<lambda>kc. (fst kc, if py_key (fst kc) = py_key v then Suc (snd kc) else snd kc)) acc"
proof (induction acc)
  case Nil
  then show ?case by simp
next
  case (Cons kc acc)
  obtain k c where kc: "kc = (k, c)" by (cases kc)
  show ?case
  proof (cases "py_key k = py_key v")
    case True
    have "py_key k \<notin> (\<lambda>kc. py_key (fst kc)) ` set acc"
      using Cons.prems(1) kc by simp
    with True have "\<forall>x\<in>set acc. py_key (fst x) \<noteq> py_key v"
      by force
    then have "map (\<lambda>kc. (fst kc, if py_key (fst kc) = py_key v then Suc (snd kc) else snd kc)) acc = acc"
      by (intro map_idI) auto
    with True kc show ?thesis by simp
  next
    case False
    with Cons kc show ?thesis by auto
  qed
qed


lemma occurrences_Cons:
  "occurrences k (v # vs) = (if py_key v = py_key k then Suc (occurrences k vs) else occurrences k vs)"
  by (simp add: occurrences_def)

lemma occurrences_filter:
  "P k \<Longrightarrow> (\<And>a b. py_key a = py_key b \<Longrightarrow> P a = P b) \<Longrightarrow>
   occurrences k (filter P vs) = occurrences k vs"
proof -
  assume k: "P k" and resp: "\<And>a b. py_key a = py_key b \<Longrightarrow> P a = P b"
  have "(P w \<and> py_key w = py_key k) = (py_key w = py_key k)" for w
    using k resp [of w k] by auto
  then show ?thesis
    by (simp add: occurrences_def)
qed

lemma set_first_seen: "set (first_seen vs) \<subseteq> set vs"
proof (induction vs rule: first_seen.induct)
  case 1
  show ?case by simp
next
  case (2 v vs)
  then show ?case by auto
qed

lemma count_elements_tally:
  "\<forall>v\<in>set vs. py_key v \<noteq> None \<Longrightarrow>
   distinct (map (\<lambda>kc. py_key (fst kc)) acc) \<Longrightarrow>
   count_elements acc vs =
     Inr (map (\<lambda>kc. (fst kc, snd kc + occurrences (fst kc) vs)) acc @
          map (\<lambda>v. (v, occurrences v vs))
            (first_seen (filter (\<lambda>w. py_key w \<notin> set (map (\<lambda>kc. py_key (fst kc)) acc)) vs)))"
proof (induction vs arbitrary: acc)
  case Nil
  show ?case by (simp add: occurrences_def)
next
  case (Cons v vs)
  let ?keys = "\<lambda>acc. set (map (\<lambda>kc. py_key (fst kc)) acc)"
  obtain h where h: "py_key v = Some h"
    using Cons.prems(1) by auto
  show ?case
  proof (cases "py_key v \<in> ?keys acc")
    case True
    let ?acc' = "map (\<lambda>kc. (fst kc, if py_key (fst kc) = py_key v then Suc (snd kc) else snd kc)) acc"
    have incr: "counter_incr v acc = ?acc'"
      using Cons.prems(2) True by (rule counter_incr_present)
    have keys: "map (\<lambda>kc. py_key (fst kc)) ?acc' = map (\<lambda>kc. py_key (fst kc)) acc"
      by (simp add: comp_def)
    have "count_elements ?acc' vs =
        Inr (map (\<lambda>kc. (fst kc, snd kc + occurrences (fst kc) vs)) ?acc' @
             map (\<lambda>v. (v, occurrences v vs))
               (first_seen (filter (\<lambda>w. py_key w \<notin> ?keys ?acc') vs)))"
      using Cons.prems by (intro Cons.IH) (simp_all add: comp_def)
    moreover have "map (\<lambda>kc. (fst kc, snd kc + occurrences (fst kc) vs)) ?acc' =
        map (\<lambda>kc. (fst kc, snd kc + occurrences (fst kc) (v # vs))) acc"
      by (simp add: occurrences_Cons comp_def)
    moreover have "map (\<lambda>w. (w, occurrences w vs))
          (first_seen (filter (\<lambda>w. py_key w \<notin> ?keys acc) vs)) =
        map (\<lambda>w. (w, occurrences w (v # vs)))
          (first_seen (filter (\<lambda>w. py_key w \<notin> ?keys acc) vs))"
    proof (rule map_cong [OF refl])
      fix w assume "w \<in> set (first_seen (filter (\<lambda>w. py_key w \<notin> ?keys acc) vs))"
      then have "py_key w \<notin> ?keys acc"
        using set_first_seen by fastforce
      with True have "py_key v \<noteq> py_key w" by metis
      then show "(w, occurrences w vs) = (w, occurrences w (v # vs))"
        by (simp add: occurrences_Cons)
    qed
    ultimately show ?thesis
      using True h incr keys by simp
  next
    case False
    let ?acc' = "acc @ [(v, 1)]"
    let ?F = "filter (\<lambda>w. py_key w \<notin> ?keys acc) vs"
    let ?G = "filter (\<lambda>w. py_key w \<notin> ?keys ?acc') vs"
    have incr: "counter_incr v acc = ?acc'"
      using False by (intro counter_incr_absent) simp
    have G: "?G = filter (\<lambda>w. py_key w \<noteq> py_key v) ?F"
      by (auto intro: filter_cong)
    have "count_elements ?acc' vs =
        Inr (map (\<lambda>kc. (fst kc, snd kc + occurrences (fst kc) vs)) ?acc' @
             map (\<lambda>v. (v, occurrences v vs)) (first_seen ?G))"
      using Cons.prems False by (intro Cons.IH) simp_all
    moreover have "map (\<lambda>kc. (fst kc, snd kc + occurrences (fst kc) vs)) acc =
        map (\<lambda>kc. (fst kc, snd kc + occurrences (fst kc) (v # vs))) acc"
    proof (rule map_cong [OF refl])
      fix kc assume "kc \<in> set acc"
      then have "py_key (fst kc) \<in> ?keys acc" by simp
      with False have "py_key v \<noteq> py_key (fst kc)" by metis
      then show "(fst kc, snd kc + occurrences (fst kc) vs) =
          (fst kc, snd kc + occurrences (fst kc) (v # vs))"
        by (simp add: occurrences_Cons)
    qed
    moreover have "occurrences v (v # ?F) = Suc (occurrences v vs)"
      using False by (simp add: occurrences_Cons occurrences_filter)
    moreover have "map (\<lambda>w. (w, occurrences w vs)) (first_seen ?G) =
        map (\<lambda>w. (w, occurrences w (v # vs))) (first_seen ?G)"
    proof (rule map_cong [OF refl])
      fix w assume "w \<in> set (first_seen ?G)"
      then have "w \<in> set ?G"
        using set_first_seen by blast
      then have "py_key v \<noteq> py_key w" by auto
      then show "(w, occurrences w vs) = (w, occurrences w (v # vs))"
        by (simp add: occurrences_Cons)
    qed
    ultimately show ?thesis
      using False h incr G by (simp add: occurrences_Cons)
  qed
qed


lemma count_elements_first_seen:
  "\<forall>v\<in>set vs. py_key v \<noteq> None \<Longrightarrow>
   count_elements [] vs = Inr (map (\<lambda>v. (v, occurrences v vs)) (first_seen vs))"
  using count_elements_tally [of vs "[]"] by simp

lemma insort_key_map:
  "insort_key f (h x) (map h xs) = map h (insort_key (\<lambda>y. f (h y)) x xs)"
  by (induction xs) simp_all

lemma sort_key_map: "sort_key f (map h xs) = map h (sort_key (\<lambda>y. f (h y)) xs)"
  by (induction xs) (simp_all add: insort_key_map)

lemma most_common_ranking:
  "most_common n (map (\<lambda>v. (v, occurrences v vs)) (first_seen vs)) =
     map (\<lambda>v. (v, occurrences v vs)) (take n (ranking vs))"
  by (simp add: most_common_def ranking_def sort_key_map take_map)

lemma language_lines:
  "0 < n \<Longrightarrow>
   runs (map (language_line L n \<circ> (\<lambda>v. (v, occurrences v vs))) ws) =
     (map (share_line L n vs) ws, None)"
  by (rule runs_prints) (simp add: language_line_def share_line_def true_div_def)

lemma distinct_first_seen: "distinct (map py_key (first_seen vs))"
proof (induction vs rule: first_seen.induct)
  case 1
  show ?case by simp
next
  case (2 v vs)
  have "py_key v \<notin> py_key ` set (first_seen (filter (\<lambda>w. py_key w \<noteq> py_key v) vs))"
    using set_first_seen [of "filter (\<lambda>w. py_key w \<noteq> py_key v) vs"] by auto
  with 2 show ?case by simp
qed

lemma keys_first_seen: "py_key ` set (first_seen vs) = py_key ` set vs"
proof (induction vs rule: first_seen.induct)
  case 1
  show ?case by simp
next
  case (2 v vs)
  have "insert (py_key v) (py_key ` set (filter (\<lambda>w. py_key w \<noteq> py_key v) vs)) =
      insert (py_key v) (py_key ` set vs)"
    by auto
  with 2 show ?case by simp
qed


lemma top_languages_dicts:
  "map_of first_item (lit ''language'') = Some l \<Longrightarrow>
   \<forall>v\<in>set (present_languages recs). py_key v \<noteq> None \<Longrightarrow>
   recs \<noteq> [] \<Longrightarrow>
   top_languages L first_item (JList (map JDict recs)) =
     ((nl @ lit ''Top 5 languages:'') #
      map (share_line L (length recs) (present_languages recs))
        (take 5 (ranking (present_languages recs))), None)"
  by (simp add: top_languages_def languages_of_dicts count_elements_first_seen
        most_common_ranking language_lines print_line_def)

text \<open>
  C3: when the first record of a dataset has a \<open>language\<close> field, \<open>inspect_dataset\<close>
  collects the \<open>language\<close> value of every record where it is present and truthy
  (hashable values, as scalars are), counts each distinct value, and prints, after a
  heading, the first 5 values of the ranking, each with its count and its percentage
  of the total number of records (not of the number of values collected). The ranking
  lists each distinct value once, by descending count, values of equal count in the
  order in which they were first met.
\<close>

theorem top_languages_report:
  "map_of first_item (lit ''language'') = Some l \<and>
   (\<forall>v\<in>set (present_languages (first_item # rest)). py_key v \<noteq> None) \<longrightarrow>
   top_languages L first_item (JList (map JDict (first_item # rest))) =
     ((nl @ lit ''Top 5 languages:'') #
      map (share_line L (Suc (length rest)) (present_languages (first_item # rest)))
        (take 5 (ranking (present_languages (first_item # rest)))), None) \<and>
   (snd (conversation_statistics first_item (JList (map JDict (first_item # rest)))) = None \<longrightarrow>
    (\<exists>before after.
       fst (inspect_dataset L name (Inr (JList (map JDict (first_item # rest))))) =
         before @
         ((nl @ lit ''Top 5 languages:'') #
          map (share_line L (Suc (length rest)) (present_languages (first_item # rest)))
            (take 5 (ranking (present_languages (first_item # rest))))) @
         after)) \<and>
   sorted_wrt (\<lambda>a b. occurrences b (present_languages (first_item # rest)) \<le>
                     occurrences a (present_languages (first_item # rest)))
     (ranking (present_languages (first_item # rest))) \<and>
   (\<forall>n. filter (\<lambda>v. occurrences v (present_languages (first_item # rest)) = n)
          (ranking (present_languages (first_item # rest))) =
        filter (\<lambda>v. occurrences v (present_languages (first_item # rest)) = n)
          (first_seen (present_languages (first_item # rest)))) \<and>
   set (ranking (present_languages (first_item # rest))) =
     set (first_seen (present_languages (first_item # rest))) \<and>
   length (ranking (present_languages (first_item # rest))) =
     length (first_seen (present_languages (first_item # rest))) \<and>
   distinct (map py_key (first_seen (present_languages (first_item # rest)))) \<and>
   py_key ` set (first_seen (present_languages (first_item # rest))) =
     py_key ` set (present_languages (first_item # rest))"
proof (intro impI)
  assume h: "map_of first_item (lit ''language'') = Some l \<and>
   (\<forall>v\<in>set (present_languages (first_item # rest)). py_key v \<noteq> None)"
  let ?data = "JList (map JDict (first_item # rest))"
  let ?ls = "present_languages (first_item # rest)"
  let ?lines = "(nl @ lit ''Top 5 languages:'') #
      map (share_line L (Suc (length rest)) ?ls) (take 5 (ranking ?ls))"
  have top: "top_languages L first_item ?data = (?lines, None)"
    using h top_languages_dicts [of first_item l "first_item # rest" L] by simp
  have whole: "\<exists>before after. fst (inspect_dataset L name (Inr ?data)) = before @ ?lines @ after"
    if "snd (conversation_statistics first_item ?data) = None"
  proof -
    have "fst (inspect_dataset L name (Inr ?data)) =
        ([nl @ rule80, [128202] @ lit '' '' @ name, rule80,
          lit ''Total items: '' @ fmt_comma (Suc (length rest)),
          nl @ lit ''Fields: '' @ py_repr L (JList (map (\<lambda>kv. JStr (fst kv)) first_item))] @
         fst (conversation_statistics first_item ?data)) @
        ?lines @
        [nl @ [128221] @ lit '' Example conversation:''] @ fst (example_conversation L first_item)"
      unfolding inspect_dataset_lines top using that by simp
    then show ?thesis by blast
  qed
  have "sorted (map (\<lambda>v. - int (occurrences v ?ls)) (ranking ?ls))"
    unfolding ranking_def by (rule sorted_sort_key)
  then have desc: "sorted_wrt (\<lambda>a b. occurrences b ?ls \<le> occurrences a ?ls) (ranking ?ls)"
    by (simp add: sorted_map)
  have stable: "filter (\<lambda>v. occurrences v ?ls = n) (ranking ?ls) =
      filter (\<lambda>v. occurrences v ?ls = n) (first_seen ?ls)" for n
    using sort_key_stable [of "\<lambda>v. - int (occurrences v ?ls)" "- int n" "first_seen ?ls"]
    by (simp add: ranking_def)
  have perm: "set (ranking ?ls) = set (first_seen ?ls)" "length (ranking ?ls) = length (first_seen ?ls)"
    by (simp_all add: ranking_def)
  show "top_languages L first_item ?data = (?lines, None) \<and>
   (snd (conversation_statistics first_item ?data) = None \<longrightarrow>
    (\<exists>before after. fst (inspect_dataset L name (Inr ?data)) = before @ ?lines @ after)) \<and>
   sorted_wrt (\<lambda>a b. occurrences b ?ls \<le> occurrences a ?ls) (ranking ?ls) \<and>
   (\<forall>n. filter (\<lambda>v. occurrences v ?ls = n) (ranking ?ls) =
        filter (\<lambda>v. occurrences v ?ls = n) (first_seen ?ls)) \<and>
   set (ranking ?ls) = set (first_seen ?ls) \<and>
   length (ranking ?ls) = length (first_seen ?ls) \<and>
   distinct (map py_key (first_seen ?ls)) \<and>
   py_key ` set (first_seen ?ls) = py_key ` set ?ls"
    using top whole desc stable perm distinct_first_seen keys_first_seen by blast
qed


theorem top_languages_report_witness:
  "top_languages sample_lib (language_record ''en'')
     (JList (map JDict
        [language_record ''en'', language_record ''es'', language_record ''en'',
         language_record [], language_record ''fr'', language_record ''de'',
         language_record ''es'', [(lit ''id'', JInt 8)], language_record ''it'',
         language_record ''pt'', language_record ''en''])) =
     ([nl @ lit ''Top 5 languages:'',
       lit ''  en: 3 (27.3%)'', lit ''  es: 2 (18.2%)'', lit ''  fr: 1 (9.1%)'',
       lit ''  de: 1 (9.1%)'', lit ''  it: 1 (9.1%)''], None)"
  using top_languages_report [of "language_record ''en''" "JStr (lit ''en'')"
      "[language_record ''es'', language_record ''en'',
         language_record [], language_record ''fr'', language_record ''de'',
         language_record ''es'', [(lit ''id'', JInt 8)], language_record ''it'',
         language_record ''pt'', language_record ''en'']" sample_lib "[]"]
  by (simp add: top_languages_def languages_of_def language_record_def most_common_def
        language_line_def py_get_def dict_get_def print_line_def text_eval float_eval)

text \<open>
  The example of the specification: 60 records in English, 30 in Spanish and 10 in
  French.
\<close>

lemma language_example:
  "top_languages sample_lib (language_record ''English'')
     (JList (map JDict
        (replicate 60 (language_record ''English'') @ replicate 30 (language_record ''Spanish'') @
         replicate 10 (language_record ''French'')))) =
     ([nl @ lit ''Top 5 languages:'',
       lit ''  English: 60 (60.0%)'', lit ''  Spanish: 30 (30.0%)'', lit ''  French: 10 (10.0%)''], None)"
  by (simp add: top_languages_def languages_of_def language_record_def most_common_def
        language_line_def py_get_def dict_get_def print_line_def text_eval float_eval)

section \<open>The batch\<close>

lemma inspect_each_append: "inspect_each L (xs @ ys) = inspect_each L xs @ inspect_each L ys"
  by (induction xs) simp_all

text \<open>
  C7: a failure while inspecting one dataset is caught for that dataset alone. Around
  any dataset of the batch the output is: the heading, the output of the datasets
  before it, what its own inspection printed, one error line with the message of the
  exception if the inspection raised, the output of the datasets after it, and the
  final summary. A file that cannot be loaded fails right after its heading. Whatever
  the batch, the output ends with the final summary.
\<close>

theorem inspection_survives_failures:
  "inspect_datasets L (pre @ (name, loaded) # post) =
     [rule80, [128269] @ lit '' AI CONVERSATION DATASETS INSPECTION'', rule80,
      nl @ lit ''Found '' @ dec_digits (length pre + 1 + length post) @ lit '' datasets''] @
     inspect_each L pre @
     fst (inspect_dataset L name loaded) @
     (case snd (inspect_dataset L name loaded) of
        None \<Rightarrow> []
      | Some e \<Rightarrow> [nl @ [10060] @ lit '' Error inspecting '' @ name @ lit '': '' @ exc_str L e]) @
     inspect_each L post @
     [nl @ rule80, [9989] @ lit '' Inspection complete!'', rule80] \<and>
   inspect_dataset L name (Inl e) = ([nl @ rule80, [128202] @ lit '' '' @ name, rule80], Some e) \<and>
   (\<exists>out. inspect_datasets L json_files =
      out @ [nl @ rule80, [9989] @ lit '' Inspection complete!'', rule80])"
proof (intro conjI)
  show "inspect_dataset L name (Inl e) = ([nl @ rule80, [128202] @ lit '' '' @ name, rule80], Some e)"
    by (simp add: inspect_dataset_def print_line_def)
  show "\<exists>out. inspect_datasets L json_files =
      out @ [nl @ rule80, [9989] @ lit '' Inspection complete!'', rule80]"
    unfolding inspect_datasets_def by (metis append.assoc)
  show "inspect_datasets L (pre @ (name, loaded) # post) =
     [rule80, [128269] @ lit '' AI CONVERSATION DATASETS INSPECTION'', rule80,
      nl @ lit ''Found '' @ dec_digits (length pre + 1 + length post) @ lit '' datasets''] @
     inspect_each L pre @
     fst (inspect_dataset L name loaded) @
     (case snd (inspect_dataset L name loaded) of
        None \<Rightarrow> []
      | Some e \<Rightarrow> [nl @ [10060] @ lit '' Error inspecting '' @ name @ lit '': '' @ exc_str L e]) @
     inspect_each L post @
     [nl @ rule80, [9989] @ lit '' Inspection complete!'', rule80]"
    by (cases "inspect_dataset L name loaded")
       (simp add: inspect_datasets_def inspect_each_append inspect_guarded_def split: option.split)
qed

theorem inspection_survives_failures_witness:
  "inspect_datasets sample_lib
     [(lit ''a.json'', Inr (JList [])),
      (lit ''b.json'', Inl (LoadError (lit ''JSONDecodeError'') (lit ''Expecting value''))),
      (lit ''c.json'', Inr (JList [JInt 5])),
      (lit ''d.json'', Inr (JList []))] =
     [rule80, [128269] @ lit '' AI CONVERSATION DATASETS INSPECTION'', rule80,
      nl @ lit ''Found 4 datasets'',
      nl @ rule80, [128202] @ lit '' a.json'', rule80, lit ''Total items: 0'', lit ''Empty dataset!'',
      nl @ rule80, [128202] @ lit '' b.json'', rule80,
      nl @ [10060] @ lit '' Error inspecting b.json: <message>'',
      nl @ rule80, [128202] @ lit '' c.json'', rule80, lit ''Total items: 1'',
      nl @ [10060] @ lit '' Error inspecting c.json: <message>'',
      nl @ rule80, [128202] @ lit '' d.json'', rule80, lit ''Total items: 0'', lit ''Empty dataset!'',
      nl @ rule80, [9989] @ lit '' Inspection complete!'', rule80]"
  using inspection_survives_failures [of sample_lib
      "[(lit ''a.json'', Inr (JList []))]"
      "lit ''b.json''" "Inl (LoadError (lit ''JSONDecodeError'') (lit ''Expecting value''))"
      "[(lit ''c.json'', Inr (JList [JInt 5])), (lit ''d.json'', Inr (JList []))]"]
  by (simp add: inspect_guarded_def inspect_dataset_def print_line_def sample_lib_def text_eval)

end
